theory Spec2Isabelle
  imports Main "HOL-Library.Word" "HOL-Library.AList"
begin

unbundle bit_operations_syntax

section \<open>The fhosts proxy helper: control channel, mapping store, lifecycle\<close>

text \<open>
  The helper is one Go file. Its package-level variables (\<open>hostMappings\<close>, \<open>server\<close>,
  \<open>listener\<close>) and the two standard streams are the fields of one record that every
  function takes and returns. The mutex around \<open>hostMappings\<close> disappears in a
  sequential model: each function below is one critical section.
\<close>

subsection \<open>Errors\<close>

text \<open>
  Go errors are values. \<open>EOF\<close> and \<open>ErrUnexpectedEOF\<close> are the two sentinels of
  package io, which the code compares by identity; every other error (of the JSON decoder,
  of the network, of the operating system) is \<open>Err\<close> with the text its \<open>Error()\<close>
  method returns.
\<close>

datatype error = EOF | ErrUnexpectedEOF | Err string

fun Error :: "error \<Rightarrow> string" where
  "Error EOF = ''EOF''"
| "Error ErrUnexpectedEOF = ''unexpected EOF''"
| "Error (Err s) = s"

text \<open>\<open>strings.Contains s substr\<close>: \<open>substr\<close> occurs in \<open>s\<close> as a contiguous block.\<close>

fun has_prefix :: "string \<Rightarrow> string \<Rightarrow> bool" where
  "has_prefix s [] = True"
| "has_prefix [] (c # cs) = False"
| "has_prefix (d # ds) (c # cs) = (d = c \<and> has_prefix ds cs)"

fun strings_Contains :: "string \<Rightarrow> string \<Rightarrow> bool" where
  "strings_Contains [] substr = (substr = [])"
| "strings_Contains (c # cs) substr = (has_prefix (c # cs) substr \<or> strings_Contains cs substr)"

subsection \<open>Messages\<close>

type_synonym byte = "8 word"

text \<open>
  The struct \<open>Message\<close>; a field left out of a Go composite literal has its zero value,
  which for the map is nil: no key is present and \<open>len\<close> is 0.
\<close>

record Message =
  Action :: string
  Type :: string
  Mappings :: "string \<rightharpoonup> string"
  Message :: string
  Port :: int
  Count :: int

definition Message0 :: Message where
  "Message0 = \<lparr>Action = [], Type = [], Mappings = Map.empty, Message = [], Port = 0, Count = 0\<rparr>"

definition proxyPort :: int where
  "proxyPort = 8899"

text \<open>\<open>len\<close> of a Go map: the number of its keys.\<close>

definition len :: "(string \<rightharpoonup> string) \<Rightarrow> int" where
  "len m = int (card (dom m))"

subsection \<open>The process state\<close>

text \<open>
  Standard input is a finite run of bytes still to come, followed by the error every
  later read of the underlying file returns: \<open>EOF\<close> when the controller closes the
  pipe, or some other error.
\<close>

record reader =
  pending :: "byte list"
  at_end :: error

text \<open>
  What the main goroutine does to the network stack and the runtime, in the order it does
  it. A listener is named by the index of the \<open>net.Listen\<close> call that bound it, a
  server by the listener it was created for. \<open>GoServe\<close> is the \<open>go\<close> statement of
  \<open>startProxy\<close>: it only creates the goroutine, which runs later.
\<close>

datatype effect = NetListen | GoServe | ServerClose nat | ListenerClose nat

record world =
  hostMappings :: "string \<rightharpoonup> string"
  server :: "nat option"
  listener :: "nat option"
  stdin :: reader
  stdout :: "Message list"
  effects :: "effect list"

text \<open>
  \<open>sendMessage\<close> frames the JSON of the message and writes it to standard output. The
  model keeps the message itself: standard output is the list of messages written.
\<close>

definition sendMessage :: "Message \<Rightarrow> world \<Rightarrow> world" where
  "sendMessage msg w = w\<lparr>stdout := stdout w @ [msg]\<rparr>"

definition logToExtension :: "string \<Rightarrow> world \<Rightarrow> world" where
  "logToExtension text w = sendMessage (Message0\<lparr>Type := ''log'', Message := text\<rparr>) w"

subsection \<open>Mapping store\<close>

definition getTargetHost :: "world \<Rightarrow> string \<Rightarrow> string" where
  "getTargetHost w hostname =
     (case hostMappings w hostname of
        Some mapped \<Rightarrow> mapped
      | None \<Rightarrow> hostname)"

definition updateMappings :: "(string \<rightharpoonup> string) \<Rightarrow> world \<Rightarrow> world" where
  "updateMappings mappings w =
     sendMessage (Message0\<lparr>Type := ''mappingsUpdated'', Count := len mappings\<rparr>)
       (w\<lparr>hostMappings := mappings\<rparr>)"

subsection \<open>Lifecycle\<close>

definition listen_calls :: "world \<Rightarrow> nat" where
  "listen_calls w = length (filter (\<lambda>e. e = NetListen) (effects w))"

text \<open>
  \<open>net_Listen\<close> is the operating system's answer to the n-th bind of 127.0.0.1:8899:
  \<open>None\<close> when the port was bound, \<open>Some err\<close> when it was not. The \<open>go\<close>
  statement is the effect \<open>GoServe\<close>; the body of the goroutine it creates is
  \<open>serve_goroutine\<close> below. The result is the error \<open>startProxy\<close> returns, \<open>None\<close>
  for nil.
\<close>

definition startProxy ::
  "(nat \<Rightarrow> error option) \<Rightarrow> (string \<rightharpoonup> string) \<Rightarrow> world \<Rightarrow> world \<times> error option" where
  "startProxy net_Listen mappings w =
     (if listener w \<noteq> None then (w, None)
      else
        let w1 = w\<lparr>hostMappings := mappings\<rparr>;
            n = listen_calls w1;
            w2 = w1\<lparr>effects := effects w1 @ [NetListen]\<rparr>
        in case net_Listen n of
             Some err \<Rightarrow> (w2, Some err)
           | None \<Rightarrow>
               let w3 = w2\<lparr>listener := Some n\<rparr>;
                   w4 = w3\<lparr>server := Some n\<rparr>;
                   w5 = w4\<lparr>effects := effects w4 @ [GoServe]\<rparr>
               in (sendMessage (Message0\<lparr>Type := ''started'', Port := proxyPort\<rparr>) w5, None))"

text \<open>
  The goroutine of \<open>startProxy\<close> calls \<open>server.Serve(listener)\<close> on the two
  package-level variables as they are when it gets to run, not as they were when it was
  created. The result is the server and the listener of that call, or \<open>None\<close> when a
  variable is nil by then: the call dereferences a nil pointer and the runtime ends the
  process with a panic. What \<open>Serve\<close> does afterwards (accepting connections, the
  error event when it fails other than by being closed) is outside this model.
\<close>

definition serve_goroutine :: "world \<Rightarrow> (nat \<times> nat) option" where
  "serve_goroutine w =
     (case server w of
        None \<Rightarrow> None
      | Some s \<Rightarrow> (case listener w of None \<Rightarrow> None | Some l \<Rightarrow> Some (s, l)))"

definition stopProxy :: "world \<Rightarrow> world" where
  "stopProxy w =
     (let w1 = (case server w of
                  Some s \<Rightarrow> w\<lparr>server := None, effects := effects w @ [ServerClose s]\<rparr>
                | None \<Rightarrow> w);
          w2 = (case listener w1 of
                  Some l \<Rightarrow> w1\<lparr>listener := None, effects := effects w1 @ [ListenerClose l]\<rparr>
                | None \<Rightarrow> w1)
      in sendMessage (Message0\<lparr>Type := ''stopped''\<rparr>) w2)"

subsection \<open>Reading the control channel\<close>

text \<open>
  \<open>io.ReadFull\<close> on a buffer of n bytes: the bytes when n of them arrive; otherwise what
  was there is consumed and the stream's error comes back, \<open>EOF\<close> turned into
  \<open>ErrUnexpectedEOF\<close> when some but not all bytes were read. A buffer of length 0 is
  full at once and nothing is read.
\<close>

definition ReadFull :: "nat \<Rightarrow> reader \<Rightarrow> (error + byte list) \<times> reader" where
  "ReadFull n rd =
     (if n \<le> length (pending rd)
      then (Inr (take n (pending rd)), rd\<lparr>pending := drop n (pending rd)\<rparr>)
      else (Inl (if pending rd \<noteq> [] \<and> at_end rd = EOF then ErrUnexpectedEOF else at_end rd),
            rd\<lparr>pending := []\<rparr>))"

text \<open>
  \<open>binary.LittleEndian.Uint32\<close>. The code calls it on the four bytes \<open>ReadFull\<close>
  filled, so the last equation is never reached.
\<close>

fun LittleEndian_Uint32 :: "byte list \<Rightarrow> 32 word" where
  "LittleEndian_Uint32 (b0 # b1 # b2 # b3 # bs) =
     ucast b0 OR push_bit 8 (ucast b1) OR push_bit 16 (ucast b2) OR push_bit 24 (ucast b3)"
| "LittleEndian_Uint32 bs = 0"

text \<open>
  \<open>json_Unmarshal\<close> stands for \<open>json.Unmarshal\<close> into a \<open>Message\<close>: the decoded
  message, or the decoder's error.
\<close>

definition readMessage ::
  "(byte list \<Rightarrow> error + Message) \<Rightarrow> reader \<Rightarrow> (error + Message) \<times> reader" where
  "readMessage json_Unmarshal rd =
     (case ReadFull 4 rd of
        (Inl err, rd1) \<Rightarrow> (Inl err, rd1)
      | (Inr lengthBytes, rd1) \<Rightarrow>
          (case ReadFull (unat (LittleEndian_Uint32 lengthBytes)) rd1 of
             (Inl err, rd2) \<Rightarrow> (Inl err, rd2)
           | (Inr messageBytes, rd2) \<Rightarrow>
               (case json_Unmarshal messageBytes of
                  Inl err \<Rightarrow> (Inl err, rd2)
                | Inr msg \<Rightarrow> (Inr msg, rd2))))"

subsection \<open>The main loop\<close>

text \<open>
  The \<open>switch\<close> of \<open>main\<close> on one decoded message. The second component is the exit
  code when the branch calls \<open>os.Exit\<close>, and \<open>None\<close> when the loop goes on.
\<close>

definition main_switch ::
  "(nat \<Rightarrow> error option) \<Rightarrow> Message \<Rightarrow> world \<Rightarrow> world \<times> nat option" where
  "main_switch net_Listen msg w =
     (if Action msg = ''start'' then
        (case startProxy net_Listen (Mappings msg) w of
           (w', Some err) \<Rightarrow>
             (sendMessage (Message0\<lparr>Type := ''error'',
                 Message := ''Failed to start proxy: '' @ Error err\<rparr>) w', None)
         | (w', None) \<Rightarrow> (w', None))
      else if Action msg = ''updateMappings'' then (updateMappings (Mappings msg) w, None)
      else if Action msg = ''stop'' then (stopProxy w, Some 0)
      else if Action msg = ''ping'' then (sendMessage (Message0\<lparr>Type := ''pong''\<rparr>) w, None)
      else (sendMessage (Message0\<lparr>Type := ''error'',
                Message := ''Unknown action: '' @ Action msg\<rparr>) w, None))"

text \<open>
  The \<open>for\<close> loop of \<open>main\<close>. It ends only through \<open>os.Exit\<close>; the result is the
  state at that moment with the exit code, and \<open>None\<close> when the loop never ends.
\<close>

partial_function (option) main_loop ::
  "(byte list \<Rightarrow> error + Message) \<Rightarrow> (nat \<Rightarrow> error option) \<Rightarrow> world \<Rightarrow> (world \<times> nat) option" where
  "main_loop json_Unmarshal net_Listen w =
     (case readMessage json_Unmarshal (stdin w) of
        (Inl err, rd) \<Rightarrow>
          if err = EOF \<or> strings_Contains (Error err) ''file already closed''
          then Some (stopProxy (w\<lparr>stdin := rd\<rparr>), 0)
          else main_loop json_Unmarshal net_Listen (w\<lparr>stdin := rd\<rparr>)
      | (Inr msg, rd) \<Rightarrow>
          (case main_switch net_Listen msg (w\<lparr>stdin := rd\<rparr>) of
             (w', Some code) \<Rightarrow> Some (w', code)
           | (w', None) \<Rightarrow> main_loop json_Unmarshal net_Listen w'))"

definition main ::
  "(byte list \<Rightarrow> error + Message) \<Rightarrow> (nat \<Rightarrow> error option) \<Rightarrow> world \<Rightarrow> (world \<times> nat) option" where
  "main json_Unmarshal net_Listen w =
     main_loop json_Unmarshal net_Listen (sendMessage (Message0\<lparr>Type := ''ready''\<rparr>) w)"

text \<open>
  The process as the operating system sees it. \<open>main_loop\<close> is the main goroutine
  alone; the goroutine of \<open>startProxy\<close> runs beside it, and the Go scheduler decides
  when it first gets to run: while the variables are still set (\<open>BeforeStop\<close>, which
  also stands for a goroutine that never runs before the process ends), or between the
  moment \<open>stopProxy\<close> has cleared them and the call of \<open>os.Exit\<close> (\<open>AfterStop\<close>). In
  the second case the goroutine reads the cleared variables and panics, and a Go process
  that panics ends with status 2 whatever code \<open>os.Exit\<close> was about to pass.
\<close>

datatype schedule = BeforeStop | AfterStop

definition process_exit ::
  "(byte list \<Rightarrow> error + Message) \<Rightarrow> (nat \<Rightarrow> error option) \<Rightarrow> schedule \<Rightarrow> world
     \<Rightarrow> (world \<times> nat) option" where
  "process_exit json_Unmarshal net_Listen sched w =
     (case main json_Unmarshal net_Listen w of
        None \<Rightarrow> None
      | Some (w', code) \<Rightarrow>
          if sched = AfterStop \<and> GoServe \<in> set (effects w') \<and> serve_goroutine w' = None
          then Some (w', 2)
          else Some (w', code))"

text \<open>The test \<open>main\<close> makes on a read error before it shuts down.\<close>

definition transport_gone :: "error \<Rightarrow> bool" where
  "transport_gone err = (err = EOF \<or> strings_Contains (Error err) ''file already closed'')"

subsection \<open>Requests and the two handlers\<close>

text \<open>
  \<open>http.Header\<close> is a Go map from a key to the list of its values; here it is the list
  of its entries in the order a \<open>range\<close> visits them. \<open>Add\<close> appends a value to a
  key's list, \<open>Set\<close> replaces the list by one value. Both are applied to keys in the
  canonical form that the server and the literal \<open>Host\<close> already have.
\<close>

type_synonym Header = "(string \<times> string list) list"

definition Header_Values :: "Header \<Rightarrow> string \<Rightarrow> string list" where
  "Header_Values h key = (case map_of h key of Some vs \<Rightarrow> vs | None \<Rightarrow> [])"

definition Header_Add :: "Header \<Rightarrow> string \<Rightarrow> string \<Rightarrow> Header" where
  "Header_Add h key v = AList.update key (Header_Values h key @ [v]) h"

definition Header_Set :: "Header \<Rightarrow> string \<Rightarrow> string \<Rightarrow> Header" where
  "Header_Set h key v = AList.update key [v] h"

text \<open>
  The fields of \<open>url.URL\<close> and \<open>http.Request\<close> that the handlers read or write. The
  host of the URL is \<open>URL_Host\<close>, since \<open>Host\<close> names the field of the request.
\<close>

record URL =
  Scheme :: string
  URL_Host :: string
  Path :: string
  RawQuery :: string

record Request =
  Method :: string
  URL :: URL
  Host :: string
  Header :: Header
  Body :: string

record Response =
  StatusCode :: int
  ResponseHeader :: Header
  ResponseBody :: string

text \<open>
  The functions of the standard library that the handlers call on strings and URLs, and
  the two calls that reach the network. Every theorem holds whatever these functions
  return. \<open>SplitHostPort\<close> answers \<open>None\<close> for its error; \<open>NewRequest\<close> answers
  the error with which \<open>http.NewRequest\<close> refuses a method and URL, \<open>None\<close> when it
  builds the request; \<open>Dial\<close> answers the error of \<open>net.Dial\<close> on network tcp,
  \<open>None\<close> when the connection is made.
\<close>

record stdlib =
  SplitHostPort :: "string \<Rightarrow> (string \<times> string) option"
  JoinHostPort :: "string \<Rightarrow> string \<Rightarrow> string"
  Hostname :: "URL \<Rightarrow> string"
  Port_of :: "URL \<Rightarrow> string"
  NewRequest :: "string \<Rightarrow> URL \<Rightarrow> error option"

record network =
  Dial :: "string \<Rightarrow> error option"
  Do :: "Request \<Rightarrow> error + Response"

text \<open>
  The response writer of a request: whether it is an \<open>http.Hijacker\<close>, and the error
  of \<open>Hijack\<close> (\<open>None\<close> when the connection is handed over).
\<close>

record ResponseWriter =
  is_Hijacker :: bool
  Hijack :: "error option"

text \<open>
  What a handler does to the outside, in order: the dial, calls on the response writer,
  the request given to \<open>client.Do\<close>, writes and closes on the two connections of a
  tunnel, and the goroutines started to copy from one connection to the other.
\<close>

datatype conn = TargetConn | ClientConn

datatype action =
    NetDial string
  | HttpError string int
  | ClientDo Request
  | AddHeader string string
  | WriteHeader int
  | CopyBody string
  | Close conn
  | Write conn string
  | GoCopy conn conn

definition handleConnect ::
  "stdlib \<Rightarrow> network \<Rightarrow> ResponseWriter \<Rightarrow> Request \<Rightarrow> world \<Rightarrow> world \<times> action list" where
  "handleConnect lib net rw r w =
     (case (case SplitHostPort lib (Host r) of
              Some hp \<Rightarrow> hp
            | None \<Rightarrow> (Host r, ''443'')) of
        (host, port) \<Rightarrow>
          let targetHost = getTargetHost w host;
              targetAddr = JoinHostPort lib targetHost port;
              w1 = (if targetHost \<noteq> host
                    then logToExtension (''Tunneling '' @ Host r @ '' -> '' @ targetAddr) w
                    else w)
          in case Dial net targetAddr of
               Some err \<Rightarrow>
                 (sendMessage (Message0\<lparr>Type := ''error'',
                     Message := ''Failed to connect to '' @ targetAddr @ '': '' @ Error err\<rparr>) w1,
                  [NetDial targetAddr, HttpError ''Bad Gateway'' 502])
             | None \<Rightarrow>
                 if \<not> is_Hijacker rw
                 then (w1, [NetDial targetAddr, Close TargetConn,
                            HttpError ''Hijacking not supported'' 500])
                 else (case Hijack rw of
                         Some err \<Rightarrow>
                           (w1, [NetDial targetAddr, Close TargetConn, HttpError (Error err) 500])
                       | None \<Rightarrow>
                           (w1, [NetDial targetAddr,
                                 Write ClientConn (''HTTP/1.1 200 Connection Established''
                                   @ [CHR 0x0D, CHR 0x0A, CHR 0x0D, CHR 0x0A]),
                                 GoCopy TargetConn ClientConn,
                                 GoCopy ClientConn TargetConn])))"

text \<open>The two nested \<open>range\<close> loops that copy a header map into another.\<close>

fun add_values :: "Header \<Rightarrow> string \<Rightarrow> string list \<Rightarrow> Header" where
  "add_values dst key [] = dst"
| "add_values dst key (v # vs) = add_values (Header_Add dst key v) key vs"

fun copy_headers :: "Header \<Rightarrow> Header \<Rightarrow> Header" where
  "copy_headers [] dst = dst"
| "copy_headers ((key, vs) # rest) dst = copy_headers rest (add_values dst key vs)"

text \<open>The same loops on the way back, as calls of \<open>w.Header().Add\<close>.\<close>

definition response_headers :: "Header \<Rightarrow> action list" where
  "response_headers h = concat (map (\<lambda>(key, vs). map (AddHeader key) vs) h)"

text \<open>
  \<open>http.NewRequest\<close> builds a request with the given method, URL and body, an empty
  header map, and the URL's host as its \<open>Host\<close> field.
\<close>

definition handleHTTP ::
  "stdlib \<Rightarrow> network \<Rightarrow> Request \<Rightarrow> world \<Rightarrow> world \<times> action list" where
  "handleHTTP lib net r w =
     (let host = Hostname lib (URL r);
          port = (if Port_of lib (URL r) = [] then ''80'' else Port_of lib (URL r));
          targetHost = getTargetHost w host;
          w1 = (if targetHost \<noteq> host
                then logToExtension (''Proxying HTTP '' @ host @ '' -> '' @ targetHost) w
                else w);
          targetURL = (URL r)\<lparr>URL_Host := JoinHostPort lib targetHost port\<rparr>
      in case NewRequest lib (Method r) targetURL of
           Some err \<Rightarrow> (w1, [HttpError ''Bad Request'' 400])
         | None \<Rightarrow>
             let proxyReq0 = \<lparr>Method = Method r, URL = targetURL, Host = URL_Host targetURL,
                               Header = [], Body = Body r\<rparr>;
                 proxyReq1 = proxyReq0\<lparr>Header := copy_headers (Header r) (Header proxyReq0)\<rparr>;
                 proxyReq = proxyReq1\<lparr>Header := Header_Set (Header proxyReq1) ''Host'' host\<rparr>
             in case Do net proxyReq of
                  Inl err \<Rightarrow>
                    (sendMessage (Message0\<lparr>Type := ''error'',
                        Message := ''HTTP proxy error: '' @ Error err\<rparr>) w1,
                     [ClientDo proxyReq, HttpError ''Bad Gateway'' 502])
                | Inr resp \<Rightarrow>
                    (w1, ClientDo proxyReq # response_headers (ResponseHeader resp)
                           @ [WriteHeader (StatusCode resp), CopyBody (ResponseBody resp)]))"

text \<open>
  The Host line of a client request as \<open>Request.Write\<close> of net/http sends it: the
  \<open>Host\<close> field of the request, or the host of its URL when that field is empty. The
  entry \<open>Host\<close> of the header map is among the keys \<open>Request.Write\<close> skips.
\<close>

definition wire_Host :: "Request \<Rightarrow> string" where
  "wire_Host req = (if Host req = [] then URL_Host (URL req) else Host req)"

definition proxyHandler ::
  "stdlib \<Rightarrow> network \<Rightarrow> ResponseWriter \<Rightarrow> Request \<Rightarrow> world \<Rightarrow> world \<times> action list" where
  "proxyHandler lib net rw r w =
     (if Method r = ''CONNECT'' then handleConnect lib net rw r w else handleHTTP lib net r w)"

subsection \<open>Concrete inputs\<close>

text \<open>The state in which the process starts, with a controller that hangs up at once.\<close>

definition world0 :: world where
  "world0 = \<lparr>hostMappings = Map.empty, server = None, listener = None,
     stdin = \<lparr>pending = [], at_end = EOF\<rparr>, stdout = [], effects = []\<rparr>"

text \<open>
  The bytes of the JSON text of a \<open>ping\<close> command (an object whose only member is
  \<open>action\<close> with the value \<open>ping\<close>), and a decoder that knows this one message and
  rejects every other body, the empty one with the text of \<open>encoding/json\<close>.
\<close>

definition ping_body :: "byte list" where
  "ping_body = [0x7B, 0x22, 0x61, 0x63, 0x74, 0x69, 0x6F, 0x6E, 0x22, 0x3A,
                0x22, 0x70, 0x69, 0x6E, 0x67, 0x22, 0x7D]"

definition sample_Unmarshal :: "byte list \<Rightarrow> error + Message" where
  "sample_Unmarshal bs =
     (if bs = [] then Inl (Err ''unexpected end of JSON input'')
      else if bs = ping_body then Inr (Message0\<lparr>Action := ''ping''\<rparr>)
      else Inl (Err ''invalid character''))"

text \<open>
  The bytes of the JSON text of a \<open>start\<close> command without mappings, and a decoder that
  knows this message too.
\<close>

definition start_body :: "byte list" where
  "start_body = [0x7B, 0x22, 0x61, 0x63, 0x74, 0x69, 0x6F, 0x6E, 0x22, 0x3A,
                 0x22, 0x73, 0x74, 0x61, 0x72, 0x74, 0x22, 0x7D]"

definition sample_Unmarshal_start :: "byte list \<Rightarrow> error + Message" where
  "sample_Unmarshal_start bs =
     (if bs = start_body then Inr (Message0\<lparr>Action := ''start''\<rparr>) else sample_Unmarshal bs)"

text \<open>
  A library for unbracketed names: the authority is split at its first colon, a URL's
  host likewise, and host and port are joined by a colon. Every request can be built.
\<close>

definition sample_lib :: stdlib where
  "sample_lib =
     \<lparr>SplitHostPort = (\<lambda>s. if CHR '':'' \<in> set s
                             then Some (takeWhile (\<lambda>c. c \<noteq> CHR '':'') s,
                                        drop 1 (dropWhile (\<lambda>c. c \<noteq> CHR '':'') s))
                             else None),
      JoinHostPort = (\<lambda>h p. h @ '':'' @ p),
      Hostname = (\<lambda>u. takeWhile (\<lambda>c. c \<noteq> CHR '':'') (URL_Host u)),
      Port_of = (\<lambda>u. drop 1 (dropWhile (\<lambda>c. c \<noteq> CHR '':'') (URL_Host u))),
      NewRequest = (\<lambda>m u. None)\<rparr>"

text \<open>
  A plain request for host \<open>a\<close> with two headers, a \<open>CONNECT\<close> for \<open>a:443\<close>,
  and a network on which nothing can be reached.
\<close>

definition sample_request :: Request where
  "sample_request =
     \<lparr>Method = ''GET'',
      URL = \<lparr>Scheme = ''http'', URL_Host = ''a'', Path = ''/'', RawQuery = []\<rparr>,
      Host = ''a'', Header = [(''Accept'', [''text/html'']), (''Cookie'', [''x=1'', ''y=2''])],
      Body = []\<rparr>"

definition sample_connect :: Request where
  "sample_connect =
     \<lparr>Method = ''CONNECT'',
      URL = \<lparr>Scheme = [], URL_Host = ''a:443'', Path = [], RawQuery = []\<rparr>,
      Host = ''a:443'', Header = [], Body = []\<rparr>"

definition unreachable :: network where
  "unreachable = \<lparr>Dial = (\<lambda>addr. Some (Err ''connection refused'')),
                   Do = (\<lambda>req. Inl (Err ''connection refused''))\<rparr>"

text \<open>A network on which every address answers a request with status 200.\<close>

definition answering :: network where
  "answering = \<lparr>Dial = (\<lambda>addr. None),
                 Do = (\<lambda>req. Inr \<lparr>StatusCode = 200, ResponseHeader = [], ResponseBody = ''ok''\<rparr>)\<rparr>"

section \<open>Mapping store\<close>

text \<open>
  C1. For every installed mapping table and every hostname, \<open>getTargetHost\<close> returns the
  table's value when the hostname is a key, and the hostname itself when it is not. The
  function is total: a missing key is an answer, not an error.
\<close>

theorem getTargetHost_lookup:
  "getTargetHost (w\<lparr>hostMappings := M\<rparr>) h = (case M h of Some t \<Rightarrow> t | None \<Rightarrow> h)"
  by (simp add: getTargetHost_def)

text \<open>
  C6. The command \<open>updateMappings\<close> installs the given table whatever the state of the
  server (no field of the state is consulted), appends one \<open>mappingsUpdated\<close> event
  whose count is the number of keys of the table, and changes nothing else. After two
  replacements in a row a lookup answers from the second table only.
\<close>

theorem updateMappings_replaces:
  "updateMappings m w =
     w\<lparr>hostMappings := m,
       stdout := stdout w @ [Message0\<lparr>Type := ''mappingsUpdated'', Count := int (card (dom m))\<rparr>]\<rparr>
   \<and> main_switch net_Listen (msg\<lparr>Action := ''updateMappings'', Mappings := m\<rparr>) w
       = (updateMappings m w, None)
   \<and> getTargetHost (updateMappings m2 (updateMappings m1 w)) h
       = (case m2 h of Some t \<Rightarrow> t | None \<Rightarrow> h)"
  by (simp add: updateMappings_def sendMessage_def len_def main_switch_def getTargetHost_def)

section \<open>Lifecycle\<close>

lemma stopProxy_fields:
  "server (stopProxy w) = None"
  "listener (stopProxy w) = None"
  "hostMappings (stopProxy w) = hostMappings w"
  "stdin (stopProxy w) = stdin w"
  "stdout (stopProxy w) = stdout w @ [Message0\<lparr>Type := ''stopped''\<rparr>]"
  "effects (stopProxy w) = effects w
       @ (case server w of Some s \<Rightarrow> [ServerClose s] | None \<Rightarrow> [])
       @ (case listener w of Some l \<Rightarrow> [ListenerClose l] | None \<Rightarrow> [])"
  by (simp_all add: stopProxy_def sendMessage_def Let_def split: option.splits)

lemma stopProxy_idle:
  "server w = None \<Longrightarrow> listener w = None \<Longrightarrow>
   stopProxy w = w\<lparr>stdout := stdout w @ [Message0\<lparr>Type := ''stopped''\<rparr>]\<rparr>"
  by (simp add: stopProxy_def sendMessage_def)

text \<open>Calls after the first find nothing to close and only add their event.\<close>

lemma stopProxy_funpow:
  "(stopProxy ^^ Suc n) w =
     (stopProxy w)\<lparr>stdout := stdout w @ replicate (Suc n) (Message0\<lparr>Type := ''stopped''\<rparr>)\<rparr>"
proof (induction n)
  case 0
  show ?case by (simp add: stopProxy_fields)
next
  case (Suc n)
  let ?ev = "Message0\<lparr>Type := ''stopped''\<rparr>"
  have "(stopProxy ^^ Suc (Suc n)) w = stopProxy ((stopProxy ^^ Suc n) w)"
    by simp
  also have "\<dots> = stopProxy ((stopProxy w)\<lparr>stdout := stdout w @ replicate (Suc n) ?ev\<rparr>)"
    using Suc.IH by simp
  also have "\<dots> = (stopProxy w)\<lparr>stdout := stdout w @ replicate (Suc (Suc n)) ?ev\<rparr>"
    by (subst stopProxy_idle) (simp_all add: stopProxy_fields replicate_append_same)
  finally show ?case .
qed

text \<open>
  C9. \<open>stopProxy\<close> is total, so it cannot fail. With no server and no listener it only
  appends a \<open>stopped\<close> event. In every state it leaves both variables nil, keeps the
  mapping table, appends exactly one \<open>stopped\<close> event, and closes the server and the
  listener that were present (server first) and nothing else. Called n+1 times in a row
  it closes what the first call closed and emits n+1 \<open>stopped\<close> events.
\<close>

theorem stopProxy_safe:
  "(server w = None \<and> listener w = None \<longrightarrow>
      stopProxy w = w\<lparr>stdout := stdout w @ [Message0\<lparr>Type := ''stopped''\<rparr>]\<rparr>)
   \<and> server (stopProxy w) = None
   \<and> listener (stopProxy w) = None
   \<and> hostMappings (stopProxy w) = hostMappings w
   \<and> stdout (stopProxy w) = stdout w @ [Message0\<lparr>Type := ''stopped''\<rparr>]
   \<and> effects (stopProxy w) = effects w
       @ (case server w of Some s \<Rightarrow> [ServerClose s] | None \<Rightarrow> [])
       @ (case listener w of Some l \<Rightarrow> [ListenerClose l] | None \<Rightarrow> [])
   \<and> (stopProxy ^^ Suc n) w =
       (stopProxy w)\<lparr>stdout := stdout w @ replicate (Suc n) (Message0\<lparr>Type := ''stopped''\<rparr>)\<rparr>"
  using stopProxy_fields [of w] stopProxy_idle [of w] stopProxy_funpow [of n w] by simp

theorem stopProxy_safe_witness:
  "server world0 = None \<and> listener world0 = None
   \<and> stopProxy world0 = world0\<lparr>stdout := [Message0\<lparr>Type := ''stopped''\<rparr>]\<rparr>
   \<and> effects (stopProxy (world0\<lparr>server := Some 0, listener := Some 0\<rparr>))
       = [ServerClose 0, ListenerClose 0]
   \<and> stdout ((stopProxy ^^ Suc 2) world0) = replicate 3 (Message0\<lparr>Type := ''stopped''\<rparr>)"
  using stopProxy_safe [of world0 2]
    stopProxy_safe [of "world0\<lparr>server := Some 0, listener := Some 0\<rparr>" 0]
  by (simp add: world0_def)

text \<open>
  C3, as the code has it. With a listener present, \<open>startProxy\<close> returns nil and leaves
  the whole state as it was: no bind is attempted, the installed table stays, and nothing
  is written to standard output. The command \<open>start\<close> therefore answers a running
  instance with no event at all.
\<close>

theorem startProxy_running_noop:
  assumes "listener w \<noteq> None"
  shows "startProxy net_Listen m w = (w, None)
       \<and> main_switch net_Listen (msg\<lparr>Action := ''start'', Mappings := m\<rparr>) w = (w, None)"
  using assms by (simp add: startProxy_def main_switch_def)

text \<open>The state after one successful \<open>start\<close> from the initial state.\<close>

lemma first_start:
  "main_switch (\<lambda>n. None) (Message0\<lparr>Action := ''start''\<rparr>) world0 =
     (world0\<lparr>server := Some 0, listener := Some 0,
        stdout := [Message0\<lparr>Type := ''started'', Port := proxyPort\<rparr>],
        effects := [NetListen, GoServe]\<rparr>, None)"
  by (simp add: main_switch_def startProxy_def listen_calls_def sendMessage_def world0_def
      Message0_def Let_def)

lemma second_start:
  "main_switch (\<lambda>n. None) (Message0\<lparr>Action := ''start''\<rparr>)
     (world0\<lparr>server := Some 0, listener := Some 0,
        stdout := [Message0\<lparr>Type := ''started'', Port := proxyPort\<rparr>],
        effects := [NetListen, GoServe]\<rparr>) =
     (world0\<lparr>server := Some 0, listener := Some 0,
        stdout := [Message0\<lparr>Type := ''started'', Port := proxyPort\<rparr>],
        effects := [NetListen, GoServe]\<rparr>, None)"
  by (simp add: main_switch_def startProxy_def Message0_def)

theorem startProxy_running_noop_witness:
  "listener (fst (main_switch (\<lambda>n. None) (Message0\<lparr>Action := ''start''\<rparr>) world0)) \<noteq> None
   \<and> main_switch (\<lambda>n. Some EOF) (Message0\<lparr>Action := ''start'', Mappings := [''a'' \<mapsto> ''b'']\<rparr>)
         (fst (main_switch (\<lambda>n. None) (Message0\<lparr>Action := ''start''\<rparr>) world0))
       = (world0\<lparr>server := Some 0, listener := Some 0,
            stdout := [Message0\<lparr>Type := ''started'', Port := proxyPort\<rparr>],
            effects := [NetListen, GoServe]\<rparr>, None)"
  using startProxy_running_noop
    [of "fst (main_switch (\<lambda>n. None) (Message0\<lparr>Action := ''start''\<rparr>) world0)"
        "\<lambda>n. Some EOF" "[''a'' \<mapsto> ''b'']" Message0]
  by (simp add: first_start)

text \<open>
  The claim as stated fails: a second \<open>start\<close> sent to the running instance does not
  append a \<open>started\<close> event, and standard output still holds the one event of the
  first start.
\<close>

theorem start_again_counterexample:
  "listener (fst (main_switch (\<lambda>n. None) (Message0\<lparr>Action := ''start''\<rparr>) world0)) \<noteq> None
   \<and> stdout (fst (main_switch (\<lambda>n. None) (Message0\<lparr>Action := ''start''\<rparr>)
         (fst (main_switch (\<lambda>n. None) (Message0\<lparr>Action := ''start''\<rparr>) world0))))
       = [Message0\<lparr>Type := ''started'', Port := proxyPort\<rparr>]
   \<and> stdout (fst (main_switch (\<lambda>n. None) (Message0\<lparr>Action := ''start''\<rparr>)
         (fst (main_switch (\<lambda>n. None) (Message0\<lparr>Action := ''start''\<rparr>) world0))))
       \<noteq> stdout (fst (main_switch (\<lambda>n. None) (Message0\<lparr>Action := ''start''\<rparr>) world0))
           @ [Message0\<lparr>Type := ''started'', Port := proxyPort\<rparr>]"
  by (simp add: first_start second_start)

text \<open>
  C10. When no instance is running and the bind fails, \<open>startProxy\<close> has already
  installed the new table: it returns the bind error with the table replaced, one bind
  attempted, no listener, the server variable untouched and no \<open>started\<close> event. The
  command \<open>start\<close> then reports the error, and later lookups answer from the new table.
\<close>

theorem startProxy_bind_failure_keeps_mappings:
  assumes "listener w = None" and "net_Listen (listen_calls w) = Some err"
  shows "startProxy net_Listen m w =
           (w\<lparr>hostMappings := m, effects := effects w @ [NetListen]\<rparr>, Some err)
       \<and> main_switch net_Listen (msg\<lparr>Action := ''start'', Mappings := m\<rparr>) w =
           (w\<lparr>hostMappings := m, effects := effects w @ [NetListen],
              stdout := stdout w @ [Message0\<lparr>Type := ''error'',
                 Message := ''Failed to start proxy: '' @ Error err\<rparr>]\<rparr>, None)
       \<and> listener (fst (startProxy net_Listen m w)) = None
       \<and> getTargetHost (fst (startProxy net_Listen m w)) h =
           (case m h of Some t \<Rightarrow> t | None \<Rightarrow> h)"
  using assms
  by (simp add: startProxy_def main_switch_def listen_calls_def sendMessage_def
      getTargetHost_def Let_def)

theorem startProxy_bind_failure_keeps_mappings_witness:
  "listener world0 = None
   \<and> startProxy (\<lambda>n. Some (Err ''address already in use'')) [''a'' \<mapsto> ''127.0.0.2''] world0 =
       (world0\<lparr>hostMappings := [''a'' \<mapsto> ''127.0.0.2''], effects := [NetListen]\<rparr>,
        Some (Err ''address already in use''))
   \<and> getTargetHost
         (fst (startProxy (\<lambda>n. Some (Err ''address already in use'')) [''a'' \<mapsto> ''127.0.0.2''] world0))
         ''a'' = ''127.0.0.2''"
  using startProxy_bind_failure_keeps_mappings
    [of world0 "\<lambda>n. Some (Err ''address already in use'')" "Err ''address already in use''"
        "[''a'' \<mapsto> ''127.0.0.2'']" Message0 "''a''"]
  by (simp add: world0_def listen_calls_def getTargetHost_def)

section \<open>Control commands\<close>

text \<open>
  C8. A decoded message whose action is none of \<open>start\<close>, \<open>updateMappings\<close>,
  \<open>stop\<close>, \<open>ping\<close> appends exactly one \<open>error\<close> event with the text
  \<open>Unknown action: \<close> followed by the action, leaves every other part of the state
  (table, server, listener, network calls) as it was, and the loop goes on.
\<close>

theorem unknown_action_error:
  assumes "Action msg \<noteq> ''start''" and "Action msg \<noteq> ''updateMappings''"
    and "Action msg \<noteq> ''stop''" and "Action msg \<noteq> ''ping''"
  shows "main_switch net_Listen msg w =
     (w\<lparr>stdout := stdout w @ [Message0\<lparr>Type := ''error'',
         Message := ''Unknown action: '' @ Action msg\<rparr>]\<rparr>, None)"
  using assms by (simp add: main_switch_def sendMessage_def)

theorem unknown_action_error_witness:
  "main_switch (\<lambda>n. None) (Message0\<lparr>Action := ''reload''\<rparr>) world0 =
     (world0\<lparr>stdout := [Message0\<lparr>Type := ''error'', Message := ''Unknown action: reload''\<rparr>]\<rparr>, None)"
  using unknown_action_error [of "Message0\<lparr>Action := ''reload''\<rparr>" "\<lambda>n. None" world0]
  by (simp add: world0_def Message0_def)

section \<open>The control channel\<close>

lemma ReadFull_exact:
  "length bs = n \<Longrightarrow>
   ReadFull n \<lparr>pending = bs @ rest, at_end = e\<rparr> = (Inr bs, \<lparr>pending = rest, at_end = e\<rparr>)"
  by (simp add: ReadFull_def)

text \<open>
  A frame is four bytes holding the length of the body, then the body. Reading one
  consumes exactly the frame and hands the body to the decoder.
\<close>

lemma readMessage_frame:
  assumes "length hdr = 4" and "unat (LittleEndian_Uint32 hdr) = length body"
  shows "readMessage json_Unmarshal \<lparr>pending = hdr @ body @ rest, at_end = e\<rparr> =
     (json_Unmarshal body, \<lparr>pending = rest, at_end = e\<rparr>)"
  using assms by (simp add: readMessage_def ReadFull_exact split: sum.splits)

lemma ReadFull_at_end: "at_end (snd (ReadFull n rd)) = at_end rd"
  by (simp add: ReadFull_def)

lemma ReadFull_ok_length:
  "ReadFull n rd = (Inr bs, rd') \<Longrightarrow> length (pending rd') + n = length (pending rd)"
  by (auto simp: ReadFull_def split: if_splits)

lemma ReadFull_err_length:
  "ReadFull n rd = (Inl err, rd') \<Longrightarrow> length (pending rd') \<le> length (pending rd)"
  by (auto simp: ReadFull_def split: if_splits)

lemma ReadFull_err:
  "ReadFull n rd = (Inl err, rd') \<Longrightarrow>
     pending rd' = [] \<and> (err = at_end rd \<or> (err = ErrUnexpectedEOF \<and> pending rd \<noteq> []))"
  by (auto simp: ReadFull_def split: if_splits)

lemma readMessage_at_end: "at_end (snd (readMessage ju rd)) = at_end rd"
  using ReadFull_at_end [of 4 rd]
  by (auto simp: readMessage_def split: prod.splits sum.splits)
    (metis ReadFull_at_end snd_conv)+

text \<open>
  On a stream whose end the loop recognises, every read that does not make the loop
  exit shortens the input: a truncated frame empties it, anything else takes at least
  the four bytes of a length prefix.
\<close>

lemma readMessage_progress:
  assumes "readMessage ju rd = (res, rd')"
    and "\<forall>err. res = Inl err \<longrightarrow> \<not> transport_gone err"
    and "transport_gone (at_end rd)"
  shows "length (pending rd') < length (pending rd)"
proof (cases "ReadFull 4 rd")
  case (Pair r1 rd1)
  show ?thesis
  proof (cases r1)
    case (Inl err)
    with Pair assms(1) have res: "res = Inl err" and rd': "rd' = rd1"
      by (simp_all add: readMessage_def)
    from Pair Inl have "pending rd1 = []"
      and "err = at_end rd \<or> (err = ErrUnexpectedEOF \<and> pending rd \<noteq> [])"
      using ReadFull_err [of 4 rd err rd1] by simp_all
    moreover from res assms(2) have "\<not> transport_gone err" by simp
    ultimately show ?thesis using assms(3) rd' by auto
  next
    case (Inr lengthBytes)
    with Pair have len1: "length (pending rd1) + 4 = length (pending rd)"
      using ReadFull_ok_length [of 4 rd lengthBytes rd1] by simp
    obtain r2 rd2 where second: "ReadFull (unat (LittleEndian_Uint32 lengthBytes)) rd1 = (r2, rd2)"
      by (cases "ReadFull (unat (LittleEndian_Uint32 lengthBytes)) rd1")
    have "length (pending rd2) \<le> length (pending rd1)"
      using second ReadFull_ok_length ReadFull_err_length
      by (cases r2) fastforce+
    moreover have "rd' = rd2"
      using assms(1) Pair Inr second
      by (auto simp: readMessage_def split: sum.splits)
    ultimately show ?thesis using len1 by simp
  qed
qed

lemma main_switch_stdin: "stdin (fst (main_switch nl msg w)) = stdin w"
  by (simp add: main_switch_def startProxy_def sendMessage_def updateMappings_def stopProxy_def
      Let_def split: option.splits prod.splits)

lemma main_switch_exit:
  "main_switch nl msg w = (w', Some code) \<Longrightarrow> code = 0 \<and> w' = stopProxy w"
  by (auto simp: main_switch_def split: if_splits prod.splits option.splits)

lemma main_loop_gone:
  assumes "readMessage ju (stdin w) = (Inl err, rd)" and "transport_gone err"
  shows "main_loop ju nl w = Some (stopProxy (w\<lparr>stdin := rd\<rparr>), 0)"
  using assms by (subst main_loop.simps) (simp add: transport_gone_def)

text \<open>
  The loop ends on every input whose end it recognises, by induction on the number of
  bytes still to come.
\<close>

lemma main_loop_exits:
  assumes "transport_gone (at_end (stdin w))"
  shows "\<exists>w0. main_loop ju nl w = Some (stopProxy w0, 0)"
  using assms
proof (induction "length (pending (stdin w))" arbitrary: w rule: less_induct)
  case less
  obtain res rd where rm: "readMessage ju (stdin w) = (res, rd)"
    by (cases "readMessage ju (stdin w)")
  have at_end: "at_end rd = at_end (stdin w)"
    using readMessage_at_end [of ju "stdin w"] rm by simp
  show ?case
  proof (cases res)
    case (Inl err)
    show ?thesis
    proof (cases "transport_gone err")
      case True
      then show ?thesis
        using main_loop_gone rm Inl by blast
    next
      case False
      then have step: "main_loop ju nl w = main_loop ju nl (w\<lparr>stdin := rd\<rparr>)"
        using rm Inl by (subst main_loop.simps) (simp add: transport_gone_def)
      have "length (pending rd) < length (pending (stdin w))"
        using readMessage_progress [OF rm] Inl False less.prems by simp
      then have "\<exists>w0. main_loop ju nl (w\<lparr>stdin := rd\<rparr>) = Some (stopProxy w0, 0)"
        using less.hyps [of "w\<lparr>stdin := rd\<rparr>"] at_end less.prems by simp
      with step show ?thesis by simp
    qed
  next
    case (Inr msg)
    obtain w' ex where sw: "main_switch nl msg (w\<lparr>stdin := rd\<rparr>) = (w', ex)"
      by (cases "main_switch nl msg (w\<lparr>stdin := rd\<rparr>)")
    have stdin': "stdin w' = rd"
      using main_switch_stdin [of nl msg "w\<lparr>stdin := rd\<rparr>"] sw by simp
    show ?thesis
    proof (cases ex)
      case (Some code)
      then have "main_loop ju nl w = Some (w', code)"
        using rm Inr sw by (subst main_loop.simps) simp
      moreover have "code = 0 \<and> w' = stopProxy (w\<lparr>stdin := rd\<rparr>)"
        using main_switch_exit sw Some by blast
      ultimately show ?thesis by blast
    next
      case None
      then have step: "main_loop ju nl w = main_loop ju nl w'"
        using rm Inr sw by (subst main_loop.simps) simp
      have "length (pending rd) < length (pending (stdin w))"
        using readMessage_progress [OF rm] Inr less.prems by simp
      then have "\<exists>w0. main_loop ju nl w' = Some (stopProxy w0, 0)"
        using less.hyps [of w'] stdin' at_end less.prems by simp
      with step show ?thesis by simp
    qed
  qed
qed

lemma main_loop_at_eof:
  assumes "stdin w = \<lparr>pending = [], at_end = EOF\<rparr>"
  shows "main_loop ju nl w = Some (stopProxy w, 0)"
proof -
  have same: "w\<lparr>stdin := \<lparr>pending = [], at_end = EOF\<rparr>\<rparr> = w"
    using assms by (cases w) simp
  have "main_loop ju nl w = Some (stopProxy (w\<lparr>stdin := \<lparr>pending = [], at_end = EOF\<rparr>\<rparr>), 0)"
    using assms by (subst main_loop.simps) (simp add: readMessage_def ReadFull_def)
  then show ?thesis
    by (simp only: same)
qed

text \<open>
  The hypothesis on the stream's end is needed: once the input is used up and every read
  fails with an error the loop does not recognise, the loop reads again for ever.
\<close>

lemma main_loop_spins_aux:
  assumes "main_loop ju nl w = Some y"
  shows "\<not> (pending (stdin w) = [] \<and> \<not> transport_gone (at_end (stdin w)))"
proof (rule main_loop.raw_induct
    [where P = "\<lambda>ju nl w y. \<not> (pending (stdin w) = [] \<and> \<not> transport_gone (at_end (stdin w)))",
     OF _ assms], goal_cases)
  case (1 main_loop' ju nl w y)
  show ?case
  proof
    assume inv: "pending (stdin w) = [] \<and> \<not> transport_gone (at_end (stdin w))"
    then have rm: "readMessage ju (stdin w) = (Inl (at_end (stdin w)), stdin w)"
      by (cases "stdin w") (simp add: readMessage_def ReadFull_def)
    from 1(2) rm inv have "main_loop' ju nl w = Some y"
      by (simp add: transport_gone_def)
    with 1(1) inv show False by blast
  qed
qed

lemma main_loop_spins:
  assumes "pending (stdin w) = []" and "\<not> transport_gone (at_end (stdin w))"
  shows "main_loop ju nl w = None"
  using assms main_loop_spins_aux [of ju nl w] by (cases "main_loop ju nl w") auto

text \<open>
  The main goroutine alone behaves as intended: on every stream that ends in an error
  the loop recognises it calls \<open>stopProxy\<close>, which closes what is open, and reaches
  \<open>os.Exit(0)\<close>. With the goroutine of \<open>startProxy\<close> beside it, the status of the
  process is 0 when that goroutine ran before the variables were cleared, and 2 when it
  was created and first runs after.
\<close>

lemma stopProxy_state:
  "stopProxy w =
     w\<lparr>server := None, listener := None,
       effects := effects w
         @ (case server w of Some s \<Rightarrow> [ServerClose s] | None \<Rightarrow> [])
         @ (case listener w of Some l \<Rightarrow> [ListenerClose l] | None \<Rightarrow> []),
       stdout := stdout w @ [Message0\<lparr>Type := ''stopped''\<rparr>]\<rparr>"
  by (simp add: stopProxy_def sendMessage_def Let_def split: option.splits)

lemma serve_goroutine_after_stop: "serve_goroutine (stopProxy w) = None"
  by (simp add: serve_goroutine_def stopProxy_fields)

lemma main_loop_frame:
  assumes "length hdr = 4" and "unat (LittleEndian_Uint32 hdr) = length body"
    and "ju body = Inr msg"
    and "stdin w = \<lparr>pending = hdr @ body @ rest, at_end = e\<rparr>"
  shows "main_loop ju nl w =
           (case main_switch nl msg (w\<lparr>stdin := \<lparr>pending = rest, at_end = e\<rparr>\<rparr>) of
              (w', Some code) \<Rightarrow> Some (w', code)
            | (w', None) \<Rightarrow> main_loop ju nl w')"
proof -
  have "readMessage ju (stdin w) = (Inr msg, \<lparr>pending = rest, at_end = e\<rparr>)"
    using assms readMessage_frame [of hdr body ju rest e] by simp
  then show ?thesis
    by (subst main_loop.simps) simp
qed

lemma process_exit_BeforeStop: "process_exit ju nl BeforeStop w = main ju nl w"
  by (simp add: process_exit_def split: option.splits)

lemma process_exit_status:
  assumes "transport_gone (at_end (stdin w))"
  shows "\<exists>w0. main ju nl w = Some (stopProxy w0, 0)
           \<and> process_exit ju nl AfterStop w =
               Some (stopProxy w0, if GoServe \<in> set (effects w0) then 2 else 0)"
proof -
  let ?w1 = "sendMessage (Message0\<lparr>Type := ''ready''\<rparr>) w"
  from assms have "transport_gone (at_end (stdin ?w1))"
    by (simp add: sendMessage_def)
  then obtain w0 where "main_loop ju nl ?w1 = Some (stopProxy w0, 0)"
    using main_loop_exits by blast
  then have m: "main ju nl w = Some (stopProxy w0, 0)"
    by (simp add: main_def)
  then have "process_exit ju nl AfterStop w =
               Some (stopProxy w0, if GoServe \<in> set (effects w0) then 2 else 0)"
    by (auto simp: process_exit_def serve_goroutine_after_stop stopProxy_fields split: option.splits)
  with m show ?thesis by blast
qed

text \<open>
  C7. The claim is that on end of stream the process stops the proxy and ends with exit
  code 0. The code does not keep it on every run. On the input of one \<open>start\<close> frame
  followed by the end of the stream, with the port free, the main goroutine binds,
  creates the serving goroutine, reads \<open>EOF\<close>, closes the server and the listener
  and writes \<open>stopped\<close>; when the serving goroutine is first scheduled after that,
  it calls \<open>Serve\<close> on the nil server and the process ends with status 2. When it was
  scheduled before, the same input ends with status 0.
\<close>

theorem process_exit_late_goroutine:
  "process_exit sample_Unmarshal_start (\<lambda>n. None) AfterStop
     (world0\<lparr>stdin := \<lparr>pending = [18, 0, 0, 0] @ start_body, at_end = EOF\<rparr>\<rparr>)
   = Some (world0\<lparr>stdout := [Message0\<lparr>Type := ''ready''\<rparr>,
                                Message0\<lparr>Type := ''started'', Port := proxyPort\<rparr>,
                                Message0\<lparr>Type := ''stopped''\<rparr>],
                     effects := [NetListen, GoServe, ServerClose 0, ListenerClose 0]\<rparr>, 2)
   \<and> process_exit sample_Unmarshal_start (\<lambda>n. None) BeforeStop
     (world0\<lparr>stdin := \<lparr>pending = [18, 0, 0, 0] @ start_body, at_end = EOF\<rparr>\<rparr>)
   = Some (world0\<lparr>stdout := [Message0\<lparr>Type := ''ready''\<rparr>,
                                Message0\<lparr>Type := ''started'', Port := proxyPort\<rparr>,
                                Message0\<lparr>Type := ''stopped''\<rparr>],
                     effects := [NetListen, GoServe, ServerClose 0, ListenerClose 0]\<rparr>, 0)"
proof -
  let ?w = "world0\<lparr>stdin := \<lparr>pending = [18, 0, 0, 0] @ start_body, at_end = EOF\<rparr>\<rparr>"
  let ?w1 = "sendMessage (Message0\<lparr>Type := ''ready''\<rparr>) ?w"
  let ?f = "world0\<lparr>stdout := [Message0\<lparr>Type := ''ready''\<rparr>,
                                Message0\<lparr>Type := ''started'', Port := proxyPort\<rparr>,
                                Message0\<lparr>Type := ''stopped''\<rparr>],
                     effects := [NetListen, GoServe, ServerClose 0, ListenerClose 0]\<rparr>"
  have "main_loop sample_Unmarshal_start (\<lambda>n. None) ?w1 = Some (?f, 0)"
    by (subst main_loop_frame [where hdr = "[18, 0, 0, 0]" and body = start_body
          and msg = "Message0\<lparr>Action := ''start''\<rparr>" and rest = "[]" and e = EOF])
      (simp_all add: sample_Unmarshal_start_def start_body_def sendMessage_def world0_def main_switch_def startProxy_def
        listen_calls_def Let_def Message0_def main_loop_at_eof stopProxy_def)
  then have m: "main sample_Unmarshal_start (\<lambda>n. None) ?w = Some (?f, 0)"
    by (simp add: main_def)
  have "serve_goroutine ?f = None"
    by (simp add: serve_goroutine_def world0_def)
  with m show ?thesis
    by (simp add: process_exit_def)
qed

text \<open>
  C4. A frame whose body the decoder rejects (the frame of length zero is one: its body
  is empty) with an error that is neither \<open>EOF\<close> nor a text containing
  \<open>file already closed\<close> is consumed whole and skipped: the loop goes on in the same
  state, nothing is written and the process does not exit. The well-formed frame after
  it is then decoded and dispatched exactly as if the bad frame had not been there. The
  errors of \<open>encoding/json\<close> never contain that text.
\<close>

theorem bad_frame_skipped:
  assumes "length hdr = 4" and "unat (LittleEndian_Uint32 hdr) = length body"
    and "json_Unmarshal body = Inl err"
    and "err \<noteq> EOF" and "\<not> strings_Contains (Error err) ''file already closed''"
    and "length hdr2 = 4" and "unat (LittleEndian_Uint32 hdr2) = length body2"
    and "json_Unmarshal body2 = Inr msg"
    and "stdin w = \<lparr>pending = hdr @ body @ hdr2 @ body2 @ rest, at_end = e\<rparr>"
  shows "main_loop json_Unmarshal net_Listen w =
           main_loop json_Unmarshal net_Listen
             (w\<lparr>stdin := \<lparr>pending = hdr2 @ body2 @ rest, at_end = e\<rparr>\<rparr>)
       \<and> main_loop json_Unmarshal net_Listen w =
           (case main_switch net_Listen msg (w\<lparr>stdin := \<lparr>pending = rest, at_end = e\<rparr>\<rparr>) of
              (w', Some code) \<Rightarrow> Some (w', code)
            | (w', None) \<Rightarrow> main_loop json_Unmarshal net_Listen w')"
proof -
  let ?w1 = "w\<lparr>stdin := \<lparr>pending = hdr2 @ body2 @ rest, at_end = e\<rparr>\<rparr>"
  have "readMessage json_Unmarshal (stdin w) =
          (Inl err, \<lparr>pending = hdr2 @ body2 @ rest, at_end = e\<rparr>)"
    using assms(1-3,9) readMessage_frame [of hdr body json_Unmarshal "hdr2 @ body2 @ rest" e]
    by simp
  then have skip: "main_loop json_Unmarshal net_Listen w = main_loop json_Unmarshal net_Listen ?w1"
    using assms(4,5) by (subst main_loop.simps) simp
  have "readMessage json_Unmarshal (stdin ?w1) = (Inr msg, \<lparr>pending = rest, at_end = e\<rparr>)"
    using assms(6-8) readMessage_frame [of hdr2 body2 json_Unmarshal rest e] by simp
  then have "main_loop json_Unmarshal net_Listen ?w1 =
           (case main_switch net_Listen msg (w\<lparr>stdin := \<lparr>pending = rest, at_end = e\<rparr>\<rparr>) of
              (w', Some code) \<Rightarrow> Some (w', code)
            | (w', None) \<Rightarrow> main_loop json_Unmarshal net_Listen w')"
    by (subst main_loop.simps) simp
  with skip show ?thesis by simp
qed

text \<open>
  A frame of length zero, then a \<open>ping\<close>, then the end of the stream: the process
  answers \<open>pong\<close> and stops when the stream ends.
\<close>

theorem bad_frame_skipped_witness:
  "main_loop sample_Unmarshal (\<lambda>n. None)
     (world0\<lparr>stdin := \<lparr>pending = [0, 0, 0, 0] @ [] @ [17, 0, 0, 0] @ ping_body @ [],
                          at_end = EOF\<rparr>\<rparr>)
   = Some (world0\<lparr>stdout := [Message0\<lparr>Type := ''pong''\<rparr>, Message0\<lparr>Type := ''stopped''\<rparr>]\<rparr>, 0)"
  using bad_frame_skipped
    [where hdr = "[0, 0, 0, 0]" and body = "[]" and json_Unmarshal = sample_Unmarshal
       and err = "Err ''unexpected end of JSON input''"
       and ?hdr2.0 = "[17, 0, 0, 0]" and ?body2.0 = ping_body
       and msg = "Message0\<lparr>Action := ''ping''\<rparr>"
       and w = "world0\<lparr>stdin := \<lparr>pending = [0, 0, 0, 0] @ [] @ [17, 0, 0, 0] @ ping_body @ [],
                          at_end = EOF\<rparr>\<rparr>"
       and rest = "[]" and e = EOF and net_Listen = "\<lambda>n. None"]
  by (auto simp: sample_Unmarshal_def ping_body_def main_switch_def Message0_def sendMessage_def
      main_loop_at_eof stopProxy_def world0_def)

section \<open>The two request handlers\<close>

text \<open>
  C5. When the dial to the substituted target fails, \<open>handleConnect\<close> writes one
  \<open>error\<close> event whose text is \<open>Failed to connect to\<close>, the target address, a colon
  and the text of the dial error; it answers the client with status 502 and the text
  \<open>Bad Gateway\<close>; and it does nothing else to the outside: after the dial the only
  action is that answer, so no acknowledgment is written and no copy loop is started.
  The one event before the error is the \<open>Tunneling\<close> log line, written before the
  dial when the host was substituted.
\<close>

theorem handleConnect_dial_failure:
  assumes "(case SplitHostPort lib (Host r) of Some hp \<Rightarrow> hp | None \<Rightarrow> (Host r, ''443''))
             = (host, port)"
    and "Dial net (JoinHostPort lib (getTargetHost w host) port) = Some err"
  shows "handleConnect lib net rw r w =
     (sendMessage (Message0\<lparr>Type := ''error'',
         Message := ''Failed to connect to '' @ JoinHostPort lib (getTargetHost w host) port
                      @ '': '' @ Error err\<rparr>)
        (if getTargetHost w host \<noteq> host
         then logToExtension (''Tunneling '' @ Host r @ '' -> ''
                @ JoinHostPort lib (getTargetHost w host) port) w
         else w),
      [NetDial (JoinHostPort lib (getTargetHost w host) port), HttpError ''Bad Gateway'' 502])"
  using assms by (simp add: handleConnect_def Let_def)

theorem handleConnect_dial_failure_witness:
  "handleConnect sample_lib unreachable \<lparr>is_Hijacker = True, Hijack = None\<rparr> sample_connect
     (world0\<lparr>hostMappings := [''a'' \<mapsto> ''127.0.0.2'']\<rparr>) =
     (world0\<lparr>hostMappings := [''a'' \<mapsto> ''127.0.0.2''],
        stdout := [Message0\<lparr>Type := ''log'', Message := ''Tunneling a:443 -> 127.0.0.2:443''\<rparr>,
                   Message0\<lparr>Type := ''error'',
                     Message := ''Failed to connect to 127.0.0.2:443: connection refused''\<rparr>]\<rparr>,
      [NetDial ''127.0.0.2:443'', HttpError ''Bad Gateway'' 502])"
  using handleConnect_dial_failure
    [where lib = sample_lib and r = sample_connect and host = "''a''" and port = "''443''"
       and net = unreachable and w = "world0\<lparr>hostMappings := [''a'' \<mapsto> ''127.0.0.2'']\<rparr>"
       and err = "Err ''connection refused''" and rw = "\<lparr>is_Hijacker = True, Hijack = None\<rparr>"]
  by (simp add: sample_lib_def sample_connect_def unreachable_def world0_def getTargetHost_def
      logToExtension_def sendMessage_def)

lemma Header_Values_Nil: "Header_Values [] k = []"
  by (simp add: Header_Values_def)

lemma Header_Values_Add:
  "Header_Values (Header_Add h key v) k =
     (if k = key then Header_Values h k @ [v] else Header_Values h k)"
  by (simp add: Header_Values_def Header_Add_def update_conv')

lemma Header_Values_Set:
  "Header_Values (Header_Set h key v) k = (if k = key then [v] else Header_Values h k)"
  by (simp add: Header_Values_def Header_Set_def update_conv')

lemma Header_Values_add_values:
  "Header_Values (add_values dst key vs) k =
     (if k = key then Header_Values dst k @ vs else Header_Values dst k)"
  by (induction vs arbitrary: dst) (simp_all add: Header_Values_Add)

lemma Header_Values_absent:
  assumes "k \<notin> fst ` set h"
  shows "Header_Values h k = []"
proof -
  from assms have "map_of h k = None"
    by (simp add: map_of_eq_None_iff)
  then show ?thesis
    by (simp add: Header_Values_def)
qed

lemma Header_Values_copy_headers:
  "distinct (map fst src) \<Longrightarrow>
   Header_Values (copy_headers src dst) k = Header_Values dst k @ Header_Values src k"
proof (induction src arbitrary: dst)
  case Nil
  show ?case by (simp add: Header_Values_Nil)
next
  case (Cons e src)
  obtain key vs where e: "e = (key, vs)" by (cases e)
  from Cons.prems e have d: "distinct (map fst src)" and notin: "key \<notin> fst ` set src"
    by simp_all
  have "Header_Values (copy_headers (e # src) dst) k =
        Header_Values (add_values dst key vs) k @ Header_Values src k"
    using Cons.IH [OF d] e by simp
  also have "\<dots> = Header_Values dst k @ Header_Values (e # src) k"
    using notin e
    by (auto simp: Header_Values_add_values Header_Values_absent) (simp_all add: Header_Values_def)
  finally show ?case .
qed

text \<open>
  For a plain request whose URL hostname h is mapped to t, and which \<open>http.NewRequest\<close>
  accepts, the request handed to \<open>client.Do\<close> has the method and body of the inbound
  one and its URL with the host replaced by t joined with the inbound port, 80 when the
  URL has none. Its header map holds for \<open>Host\<close> the one value h and for every other
  key the values of the inbound header map; its \<open>Host\<close> field is the substituted
  address.
\<close>

lemma handleHTTP_request_built:
  assumes "hostMappings w (Hostname lib (URL r)) = Some t"
    and "NewRequest lib (Method r)
           ((URL r)\<lparr>URL_Host := JoinHostPort lib t
              (if Port_of lib (URL r) = [] then ''80'' else Port_of lib (URL r))\<rparr>) = None"
    and "distinct (map fst (Header r))"
  shows "\<exists>proxyReq rest.
           snd (handleHTTP lib net r w) = ClientDo proxyReq # rest
         \<and> Method proxyReq = Method r
         \<and> Body proxyReq = Body r
         \<and> URL proxyReq = (URL r)\<lparr>URL_Host := JoinHostPort lib t
              (if Port_of lib (URL r) = [] then ''80'' else Port_of lib (URL r))\<rparr>
         \<and> Host proxyReq = JoinHostPort lib t
              (if Port_of lib (URL r) = [] then ''80'' else Port_of lib (URL r))
         \<and> Header_Values (Header proxyReq) ''Host'' = [Hostname lib (URL r)]
         \<and> (\<forall>k. k \<noteq> ''Host'' \<longrightarrow>
               Header_Values (Header proxyReq) k = Header_Values (Header r) k)"
proof -
  let ?host = "Hostname lib (URL r)"
  let ?port = "if Port_of lib (URL r) = [] then ''80'' else Port_of lib (URL r)"
  let ?targetURL = "(URL r)\<lparr>URL_Host := JoinHostPort lib t ?port\<rparr>"
  let ?P = "\<lparr>Method = Method r, URL = ?targetURL, Host = URL_Host ?targetURL,
             Header = Header_Set (copy_headers (Header r) []) ''Host'' ?host, Body = Body r\<rparr>"
  have target: "getTargetHost w ?host = t"
    using assms(1) by (simp add: getTargetHost_def)
  have "\<exists>rest. snd (handleHTTP lib net r w) = ClientDo ?P # rest"
  proof (cases "Do net ?P")
    case (Inl err)
    with assms(2) target show ?thesis
      by (simp add: handleHTTP_def Let_def)
  next
    case (Inr resp)
    with assms(2) target show ?thesis
      by (simp add: handleHTTP_def Let_def)
  qed
  moreover have "Header_Values (Header ?P) ''Host'' = [?host]"
    by (simp add: Header_Values_Set)
  moreover have "\<forall>k. k \<noteq> ''Host'' \<longrightarrow> Header_Values (Header ?P) k = Header_Values (Header r) k"
    using assms(3) by (simp add: Header_Values_Set Header_Values_copy_headers Header_Values_Nil)
  ultimately show ?thesis
    by (intro exI [of _ ?P]) simp
qed

text \<open>
  C2. The claim is that the outbound request goes to the target while its Host header
  is the original hostname. The code does not keep the second half. For a \<open>GET\<close> of
  host \<open>a\<close> mapped to \<open>127.0.0.3\<close>, the request given to \<open>client.Do\<close> has the
  URL host \<open>127.0.0.3:80\<close> and every inbound header, and the handler has put the
  original name \<open>a\<close> into the header map under \<open>Host\<close>, as its comment intends. But
  the \<open>Host\<close> field of the request, which \<open>http.NewRequest\<close> took from the URL, is
  left as it is, and the Host line that is sent comes from that field: the downstream
  server receives \<open>127.0.0.3:80\<close>, not \<open>a\<close>.
\<close>

theorem handleHTTP_host_on_wire:
  "handleHTTP sample_lib answering sample_request
       (world0\<lparr>hostMappings := [''a'' \<mapsto> ''127.0.0.3'']\<rparr>) =
     (world0\<lparr>hostMappings := [''a'' \<mapsto> ''127.0.0.3''],
        stdout := [Message0\<lparr>Type := ''log'', Message := ''Proxying HTTP a -> 127.0.0.3''\<rparr>]\<rparr>,
      [ClientDo
         \<lparr>Method = ''GET'',
          URL = \<lparr>Scheme = ''http'', URL_Host = ''127.0.0.3:80'', Path = ''/'', RawQuery = []\<rparr>,
          Host = ''127.0.0.3:80'',
          Header = [(''Accept'', [''text/html'']), (''Cookie'', [''x=1'', ''y=2'']),
                    (''Host'', [''a''])],
          Body = []\<rparr>,
       WriteHeader 200, CopyBody ''ok''])
   \<and> wire_Host
         \<lparr>Method = ''GET'',
          URL = \<lparr>Scheme = ''http'', URL_Host = ''127.0.0.3:80'', Path = ''/'', RawQuery = []\<rparr>,
          Host = ''127.0.0.3:80'',
          Header = [(''Accept'', [''text/html'']), (''Cookie'', [''x=1'', ''y=2'']),
                    (''Host'', [''a''])],
          Body = []\<rparr> = ''127.0.0.3:80''
   \<and> ''127.0.0.3:80'' \<noteq> ''a''"
  by (simp add: handleHTTP_def sample_lib_def answering_def sample_request_def world0_def
      getTargetHost_def logToExtension_def sendMessage_def Let_def Header_Set_def Header_Add_def
      Header_Values_def response_headers_def wire_Host_def)

end
